theory Spec2Isabelle
  imports Main
begin

section \<open>The table sizer hook of the DataFrame widget\<close>

text \<open>
  A shallow embedding of
  \<^verbatim>\<open>frontend/src/components/widgets/DataFrame/hooks/useTableSizer.ts\<close>.

  Pixel sizes and row counts are integers (\<^typ>\<open>int\<close>). An optional number
  (\<^verbatim>\<open>number | undefined\<close>) is an \<^typ>\<open>int option\<close>; JavaScript's truthiness test
  \<^verbatim>\<open>if (x)\<close> on such a value holds when the number is there and is not zero.
  The hook has two parts: the body, which computes the bounds of the table from the
  properties of the current render, and three layout effects, each of which may replace
  the state \<^verbatim>\<open>resizableSize\<close>. An effect is a function from the properties and the
  state captured by the render to the state after the effect.
\<close>

subsection \<open>Constants (lines 24 to 33)\<close>

definition ROW_HEIGHT :: int where
  "ROW_HEIGHT = 35"

definition MIN_COLUMN_WIDTH :: int where
  "MIN_COLUMN_WIDTH = 35"

definition MIN_TABLE_WIDTH :: int where
  "MIN_TABLE_WIDTH = MIN_COLUMN_WIDTH + 3"

definition MIN_TABLE_HEIGHT :: int where
  "MIN_TABLE_HEIGHT = 2 * ROW_HEIGHT + 3"

definition DEFAULT_TABLE_HEIGHT :: int where
  "DEFAULT_TABLE_HEIGHT = 400"

subsection \<open>Data\<close>

text \<open>
  Modelled from the spec: the generated protobuf class \<^verbatim>\<open>ArrowProto\<close> and its enum
  \<^verbatim>\<open>EditingMode\<close> (\<^verbatim>\<open>src/autogen/proto\<close>) are not among the sources. The spec gives the
  descriptor an edit mode \<^verbatim>\<open>enum{STATIC, DYNAMIC, ...}\<close>, an optional configured width
  and height and the flag for the full container width. The hook only compares the
  edit mode with \<^verbatim>\<open>DYNAMIC\<close>; \<open>OTHER\<close> stands for the members the spec leaves open.
\<close>

datatype EditingMode = STATIC | DYNAMIC | OTHER nat

record ArrowProto =
  editingMode :: EditingMode
  height :: "int option"
  width :: "int option"
  useContainerWidth :: bool

text \<open>The object behind \<^verbatim>\<open>resizableRef.current\<close>; \<open>None\<close> is the null reference.\<close>

datatype Resizable = Resizable

text \<open>The parameters of the hook (interface \<^verbatim>\<open>Props\<close>, lines 35 to 42).\<close>

record Props =
  element :: ArrowProto
  resizableRef :: "Resizable option"
  numRows :: int
  containerWidth :: int
  containerHeight :: "int option"
  isFullScreen :: "bool option"

text \<open>
  \<^verbatim>\<open>ResizableSize\<close> of re-resizable: each member is a number or a string. The hook
  writes the string \<^verbatim>\<open>"100%"\<close> for a table that fills its container.
\<close>

datatype SizeValue = Num int | Str string

record ResizableSize =
  size_width :: SizeValue
  size_height :: SizeValue

text \<open>
  What one run of the body computes: the returned fields of \<^verbatim>\<open>AutoSizerReturn\<close>
  (lines 169 to 177) and the locals \<^verbatim>\<open>initialWidth\<close> and \<^verbatim>\<open>initialHeight\<close>, which the
  state initialiser and the effects read.
\<close>

record Sizer =
  rowHeight :: int
  minHeight :: int
  maxHeight :: int
  minWidth :: int
  maxWidth :: int
  initialWidth :: "int option"
  initialHeight :: int

subsection \<open>JavaScript helpers\<close>

text \<open>\<^verbatim>\<open>if (x)\<close> for an optional number: undefined and 0 are falsy.\<close>

definition truthy :: "int option \<Rightarrow> bool" where
  "truthy x = (case x of None \<Rightarrow> False | Some n \<Rightarrow> n \<noteq> 0)"

text \<open>\<^verbatim>\<open>if (b)\<close> for an optional boolean: undefined is falsy.\<close>

definition truthyBool :: "bool option \<Rightarrow> bool" where
  "truthyBool b = (case b of None \<Rightarrow> False | Some v \<Rightarrow> v)"

text \<open>
  Modelled from the spec: \<^verbatim>\<open>notNullOrUndefined\<close> of \<^verbatim>\<open>src/lib/utils\<close> is not among the
  sources; the spec reads the test as "configuredWidth present".
\<close>

definition notNullOrUndefined :: "'a option \<Rightarrow> bool" where
  "notNullOrUndefined x = (case x of None \<Rightarrow> False | Some _ \<Rightarrow> True)"

text \<open>\<^verbatim>\<open>initialWidth || "100%"\<close> (lines 121 and 162).\<close>

definition orFullWidth :: "int option \<Rightarrow> SizeValue" where
  "orFullWidth x =
     (case x of None \<Rightarrow> Str ''100%'' | Some n \<Rightarrow> if n = 0 then Str ''100%'' else Num n)"

subsection \<open>The body of the hook (lines 74 to 118)\<close>

text \<open>
  The automatic table height, the first value of \<^verbatim>\<open>maxHeight\<close> (lines 75 to 83).
\<close>

definition automaticMaxHeight :: "int \<Rightarrow> EditingMode \<Rightarrow> int" where
  "automaticMaxHeight rows mode =
     max ((rows + 1) * ROW_HEIGHT + 1 + 2 + (if mode = DYNAMIC then ROW_HEIGHT else 0))
         MIN_TABLE_HEIGHT"

text \<open>
  The two height variables through lines 85 to 103, as the pair
  \<open>(initialHeight, maxHeight)\<close>.
\<close>

definition tableHeights :: "Props \<Rightarrow> int \<times> int" where
  "tableHeights p =
     (let maxHeight = automaticMaxHeight (numRows p) (editingMode (element p));
          initialHeight = min maxHeight DEFAULT_TABLE_HEIGHT;
          (initialHeight, maxHeight) =
            (case height (element p) of
               None \<Rightarrow> (initialHeight, maxHeight)
             | Some h \<Rightarrow>
                 if h = 0 then (initialHeight, maxHeight)
                 else (max h MIN_TABLE_HEIGHT, max h maxHeight))
      in case containerHeight p of
           None \<Rightarrow> (initialHeight, maxHeight)
         | Some c \<Rightarrow>
             if c = 0 then (initialHeight, maxHeight)
             else
               (let initialHeight = min initialHeight c;
                    maxHeight = min maxHeight c
                in if \<not> truthy (height (element p)) then (maxHeight, maxHeight)
                   else (initialHeight, maxHeight)))"

text \<open>
  The two width variables through lines 105 to 118, as the pair
  \<open>(initialWidth, maxWidth)\<close>.
\<close>

definition tableWidths :: "Props \<Rightarrow> int option \<times> int" where
  "tableWidths p =
     (let initialWidth = None;
          maxWidth = containerWidth p
      in if useContainerWidth (element p) then (Some (containerWidth p), maxWidth)
         else
           (case width (element p) of
              None \<Rightarrow> (initialWidth, maxWidth)
            | Some w \<Rightarrow>
                if w = 0 then (initialWidth, maxWidth)
                else (Some (min (max w MIN_TABLE_WIDTH) (containerWidth p)),
                      min (max w maxWidth) (containerWidth p))))"

definition useTableSizer :: "Props \<Rightarrow> Sizer" where
  "useTableSizer p =
     \<lparr>rowHeight = ROW_HEIGHT,
      minHeight = MIN_TABLE_HEIGHT,
      maxHeight = snd (tableHeights p),
      minWidth = MIN_TABLE_WIDTH,
      maxWidth = snd (tableWidths p),
      initialWidth = fst (tableWidths p),
      initialHeight = fst (tableHeights p)\<rparr>"

subsection \<open>The state and the layout effects (lines 120 to 167)\<close>

text \<open>The initial state of \<^verbatim>\<open>React.useState\<close> (lines 120 to 123).\<close>

definition initialResizableSize :: "Props \<Rightarrow> ResizableSize" where
  "initialResizableSize p =
     \<lparr>size_width = orFullWidth (initialWidth (useTableSizer p)),
      size_height = Num (initialHeight (useTableSizer p))\<rparr>"

text \<open>The effect that depends on \<^verbatim>\<open>containerWidth\<close> (lines 125 to 138).\<close>

definition containerWidthEffect :: "Props \<Rightarrow> ResizableSize \<Rightarrow> ResizableSize" where
  "containerWidthEffect p resizableSize =
     (if resizableRef p \<noteq> None \<and> useContainerWidth (element p)
         \<and> size_width resizableSize = Str ''100%''
      then \<lparr>size_width = Num (containerWidth p), size_height = size_height resizableSize\<rparr>
      else resizableSize)"

text \<open>The effect that depends on \<^verbatim>\<open>numRows\<close> (lines 140 to 148).\<close>

definition numRowsEffect :: "Props \<Rightarrow> ResizableSize \<Rightarrow> ResizableSize" where
  "numRowsEffect p resizableSize =
     (if resizableRef p \<noteq> None
      then \<lparr>size_width = size_width resizableSize,
            size_height = Num (initialHeight (useTableSizer p))\<rparr>
      else resizableSize)"

text \<open>The effect that depends on \<^verbatim>\<open>isFullScreen\<close> (lines 150 to 167).\<close>

definition fullScreenEffect :: "Props \<Rightarrow> ResizableSize \<Rightarrow> ResizableSize" where
  "fullScreenEffect p resizableSize =
     (if resizableRef p \<noteq> None then
        (if truthyBool (isFullScreen p) then
           (let stretchColumns =
                  (useContainerWidth (element p)
                   \<or> (notNullOrUndefined (width (element p))
                       \<and> (case width (element p) of None \<Rightarrow> False | Some w \<Rightarrow> w > 0)))
            in \<lparr>size_width =
                   (if stretchColumns then Num (maxWidth (useTableSizer p)) else Str ''100%''),
                 size_height = Num (maxHeight (useTableSizer p))\<rparr>)
         else
           \<lparr>size_width = orFullWidth (initialWidth (useTableSizer p)),
            size_height = Num (initialHeight (useTableSizer p))\<rparr>)
      else resizableSize)"

section \<open>Properties of the body\<close>

text \<open>
  C9. For every input the returned \<^verbatim>\<open>maxWidth\<close> is exactly the container width: the
  assignment of line 117 in the branch of a configured width takes the smaller of
  \<open>max width containerWidth\<close> and \<open>containerWidth\<close>, which is \<open>containerWidth\<close>
  again, so no configuration makes \<^verbatim>\<open>maxWidth\<close> differ from the container width.
\<close>

theorem maxWidth_is_containerWidth:
  "maxWidth (useTableSizer p) = containerWidth p"
  by (simp add: useTableSizer_def tableWidths_def Let_def split: option.split)

text \<open>The configured width 1000 in a container of width 800 leaves \<^verbatim>\<open>maxWidth\<close> at 800.\<close>

theorem maxWidth_is_containerWidth_witness:
  "maxWidth (useTableSizer
     \<lparr>element = \<lparr>editingMode = STATIC, height = None, width = Some 1000,
                  useContainerWidth = False\<rparr>,
      resizableRef = Some Resizable, numRows = 5, containerWidth = 800,
      containerHeight = None, isFullScreen = None\<rparr>) = 800"
  (is "maxWidth (useTableSizer ?p) = _")
  using maxWidth_is_containerWidth [of ?p] by simp


text \<open>
  C1. The automatic maximum height of lines 75 to 83 is one row height for each data
  row and one for the header, 3 pixels for the borders and the selection ring, one more
  row height when the editing mode is \<^verbatim>\<open>DYNAMIC\<close>, and never less than the minimum table
  height 73. This holds for every row count and every editing mode, and it is the
  \<^verbatim>\<open>maxHeight\<close> the hook returns when neither a configured height nor a container height
  takes part.
\<close>

theorem maxHeight_automatic:
  "automaticMaxHeight rows mode
     = max ((rows + 1) * 35 + 3 + (if mode = DYNAMIC then 35 else 0)) 73
   \<and> (\<not> truthy (height (element p)) \<and> \<not> truthy (containerHeight p) \<longrightarrow>
        maxHeight (useTableSizer p)
          = max ((numRows p + 1) * 35 + 3
                 + (if editingMode (element p) = DYNAMIC then 35 else 0)) 73)"
  by (simp add: useTableSizer_def tableHeights_def automaticMaxHeight_def ROW_HEIGHT_def
      MIN_TABLE_HEIGHT_def truthy_def Let_def split: option.split)

text \<open>
  Scenario B of the spec: five rows, dynamic editing, no configured height and no
  container height give the maximum height 248.
\<close>

theorem maxHeight_automatic_witness:
  "automaticMaxHeight 5 DYNAMIC = 248
   \<and> maxHeight (useTableSizer
        \<lparr>element = \<lparr>editingMode = DYNAMIC, height = None, width = None,
                     useContainerWidth = False\<rparr>,
         resizableRef = Some Resizable, numRows = 5, containerWidth = 800,
         containerHeight = None, isFullScreen = None\<rparr>) = 248"
  (is "_ \<and> maxHeight (useTableSizer ?p) = _")
proof -
  have pre: "\<not> truthy (height (element ?p)) \<and> \<not> truthy (containerHeight ?p)"
    by (simp add: truthy_def)
  from maxHeight_automatic [of 5 DYNAMIC ?p] pre show ?thesis
    by simp
qed


text \<open>
  C2, as the spec states it: for every input \<^verbatim>\<open>initialHeight\<close> is at most
  \<^verbatim>\<open>maxHeight\<close> and at least the minimum table height 73. The lower bound fails when
  the container is lower than 73 pixels: lines 96 and 97 clamp both heights to the
  container height, whatever the minimum is. Five rows in a container of height 50:
\<close>

theorem initialHeight_below_minimum:
  "initialHeight (useTableSizer
     \<lparr>element = \<lparr>editingMode = STATIC, height = None, width = None,
                  useContainerWidth = False\<rparr>,
      resizableRef = Some Resizable, numRows = 5, containerWidth = 800,
      containerHeight = Some 50, isFullScreen = Some True\<rparr>) = 50
   \<and> \<not> MIN_TABLE_HEIGHT \<le> initialHeight (useTableSizer
     \<lparr>element = \<lparr>editingMode = STATIC, height = None, width = None,
                  useContainerWidth = False\<rparr>,
      resizableRef = Some Resizable, numRows = 5, containerWidth = 800,
      containerHeight = Some 50, isFullScreen = Some True\<rparr>)"
  by (simp add: useTableSizer_def tableHeights_def automaticMaxHeight_def ROW_HEIGHT_def
      MIN_TABLE_HEIGHT_def DEFAULT_TABLE_HEIGHT_def truthy_def Let_def)

text \<open>
  C2, amended. For every input \<^verbatim>\<open>initialHeight\<close> is at most \<^verbatim>\<open>maxHeight\<close>. It is at
  least the minimum table height 73 when no container height takes part (undefined
  or 0), and when the container height is at least 73; with a container height \<open>c\<close>
  it is at least the smaller of 73 and \<open>c\<close>.
\<close>

theorem initialHeight_bounds:
  "initialHeight (useTableSizer p) \<le> maxHeight (useTableSizer p)
   \<and> MIN_TABLE_HEIGHT = 73
   \<and> (\<not> truthy (containerHeight p) \<longrightarrow>
        MIN_TABLE_HEIGHT \<le> initialHeight (useTableSizer p))
   \<and> (containerHeight p = Some c \<longrightarrow>
        min MIN_TABLE_HEIGHT c \<le> initialHeight (useTableSizer p))
   \<and> (containerHeight p = Some c \<and> MIN_TABLE_HEIGHT \<le> c \<longrightarrow>
        MIN_TABLE_HEIGHT \<le> initialHeight (useTableSizer p))"
  by (auto simp add: useTableSizer_def tableHeights_def automaticMaxHeight_def
      ROW_HEIGHT_def MIN_TABLE_HEIGHT_def DEFAULT_TABLE_HEIGHT_def truthy_def Let_def
      split: option.split)

text \<open>
  A hundred rows with the configured height 500 in a container of height 600: the
  initial height is 500, between 73 and the maximum height 600.
\<close>

theorem initialHeight_bounds_witness:
  "initialHeight (useTableSizer
     \<lparr>element = \<lparr>editingMode = STATIC, height = Some 500, width = None,
                  useContainerWidth = False\<rparr>,
      resizableRef = Some Resizable, numRows = 100, containerWidth = 800,
      containerHeight = Some 600, isFullScreen = Some True\<rparr>)
   \<le> maxHeight (useTableSizer
     \<lparr>element = \<lparr>editingMode = STATIC, height = Some 500, width = None,
                  useContainerWidth = False\<rparr>,
      resizableRef = Some Resizable, numRows = 100, containerWidth = 800,
      containerHeight = Some 600, isFullScreen = Some True\<rparr>)
   \<and> 73 \<le> initialHeight (useTableSizer
     \<lparr>element = \<lparr>editingMode = STATIC, height = Some 500, width = None,
                  useContainerWidth = False\<rparr>,
      resizableRef = Some Resizable, numRows = 100, containerWidth = 800,
      containerHeight = Some 600, isFullScreen = Some True\<rparr>)"
  (is "initialHeight (useTableSizer ?p) \<le> _ \<and> _")
proof -
  have pre: "containerHeight ?p = Some 600 \<and> (73::int) \<le> 600"
    by simp
  from initialHeight_bounds [of ?p 600] pre show ?thesis
    by simp
qed

text \<open>
  C3. When a container height \<open>c\<close> is supplied and no height is configured, the
  initial height and the maximum height are both the smaller of the automatic maximum
  height and \<open>c\<close>: a table without a configured height fills a bounded container up
  to its clamped maximum.
\<close>

theorem unconfigured_height_fills_container:
  "containerHeight p = Some c \<Longrightarrow> c \<noteq> 0 \<Longrightarrow> \<not> truthy (height (element p)) \<Longrightarrow>
   initialHeight (useTableSizer p)
     = min (automaticMaxHeight (numRows p) (editingMode (element p))) c
   \<and> maxHeight (useTableSizer p)
     = min (automaticMaxHeight (numRows p) (editingMode (element p))) c"
  by (auto simp add: useTableSizer_def tableHeights_def truthy_def Let_def
      split: option.split)

text \<open>
  A hundred rows (automatic maximum height 3538) in a container of height 600: both
  heights are 600.
\<close>

theorem unconfigured_height_fills_container_witness:
  "initialHeight (useTableSizer
     \<lparr>element = \<lparr>editingMode = STATIC, height = None, width = None,
                  useContainerWidth = True\<rparr>,
      resizableRef = Some Resizable, numRows = 100, containerWidth = 1200,
      containerHeight = Some 600, isFullScreen = Some True\<rparr>) = 600
   \<and> maxHeight (useTableSizer
     \<lparr>element = \<lparr>editingMode = STATIC, height = None, width = None,
                  useContainerWidth = True\<rparr>,
      resizableRef = Some Resizable, numRows = 100, containerWidth = 1200,
      containerHeight = Some 600, isFullScreen = Some True\<rparr>) = 600"
  (is "initialHeight (useTableSizer ?p) = _ \<and> _")
proof -
  have c: "containerHeight ?p = Some 600" and nz: "(600::int) \<noteq> 0"
    and h: "\<not> truthy (height (element ?p))"
    by (simp_all add: truthy_def)
  have a: "automaticMaxHeight (numRows ?p) (editingMode (element ?p)) = 3538"
    by (simp add: automaticMaxHeight_def ROW_HEIGHT_def MIN_TABLE_HEIGHT_def)
  from unconfigured_height_fills_container [OF c nz h] a show ?thesis
    by simp
qed

text \<open>
  C6. When the full container width is not requested and a width \<open>w\<close> is configured,
  the initial width is \<open>w\<close> raised to the minimum table width and then cut to the
  container width, and \<^verbatim>\<open>maxWidth\<close> is the larger of \<open>w\<close> and its former value (the
  container width) cut to the container width. A configured width above the container
  width gives the container width as initial width.
\<close>

theorem configured_width_clamped:
  "\<not> useContainerWidth (element p) \<Longrightarrow> width (element p) = Some w \<Longrightarrow> w \<noteq> 0 \<Longrightarrow>
   initialWidth (useTableSizer p) = Some (min (max w MIN_TABLE_WIDTH) (containerWidth p))
   \<and> maxWidth (useTableSizer p) = min (max w (containerWidth p)) (containerWidth p)
   \<and> (containerWidth p < w \<longrightarrow> initialWidth (useTableSizer p) = Some (containerWidth p))"
  by (simp add: useTableSizer_def tableWidths_def Let_def)

text \<open>The configured width 1000 in a container of width 800.\<close>

theorem configured_width_clamped_witness:
  "initialWidth (useTableSizer
     \<lparr>element = \<lparr>editingMode = STATIC, height = None, width = Some 1000,
                  useContainerWidth = False\<rparr>,
      resizableRef = Some Resizable, numRows = 5, containerWidth = 800,
      containerHeight = None, isFullScreen = None\<rparr>) = Some 800
   \<and> maxWidth (useTableSizer
     \<lparr>element = \<lparr>editingMode = STATIC, height = None, width = Some 1000,
                  useContainerWidth = False\<rparr>,
      resizableRef = Some Resizable, numRows = 5, containerWidth = 800,
      containerHeight = None, isFullScreen = None\<rparr>) = 800"
  (is "initialWidth (useTableSizer ?p) = _ \<and> _")
proof -
  have u: "\<not> useContainerWidth (element ?p)" and w: "width (element ?p) = Some 1000"
    and nz: "(1000::int) \<noteq> 0"
    by simp_all
  from configured_width_clamped [OF u w nz] show ?thesis
    by (simp add: MIN_TABLE_WIDTH_def MIN_COLUMN_WIDTH_def)
qed


lemma maxHeight_le_containerHeight:
  "containerHeight p = Some c \<Longrightarrow> c \<noteq> 0 \<Longrightarrow> maxHeight (useTableSizer p) \<le> c"
  by (simp add: useTableSizer_def tableHeights_def Let_def split: option.split)

section \<open>Properties of the layout effects\<close>

text \<open>
  C10. With a null \<^verbatim>\<open>resizableRef.current\<close> (the table is not mounted) none of the three
  effects changes the state: the effect of the container width, the effect of the row
  count, and the effect of the full-screen flag, whichever way the flag goes.
\<close>

theorem no_update_without_ref:
  "resizableRef p = None \<Longrightarrow>
   containerWidthEffect p s = s \<and> numRowsEffect p s = s \<and> fullScreenEffect p s = s"
  by (simp add: containerWidthEffect_def numRowsEffect_def fullScreenEffect_def)

theorem no_update_without_ref_witness:
  "containerWidthEffect
     \<lparr>element = \<lparr>editingMode = DYNAMIC, height = None, width = None,
                  useContainerWidth = True\<rparr>,
      resizableRef = None, numRows = 20, containerWidth = 640,
      containerHeight = None, isFullScreen = Some False\<rparr>
     \<lparr>size_width = Str ''100%'', size_height = Num 100\<rparr>
   = \<lparr>size_width = Str ''100%'', size_height = Num 100\<rparr>
   \<and> numRowsEffect
     \<lparr>element = \<lparr>editingMode = DYNAMIC, height = None, width = None,
                  useContainerWidth = True\<rparr>,
      resizableRef = None, numRows = 20, containerWidth = 640,
      containerHeight = None, isFullScreen = Some False\<rparr>
     \<lparr>size_width = Str ''100%'', size_height = Num 100\<rparr>
   = \<lparr>size_width = Str ''100%'', size_height = Num 100\<rparr>
   \<and> fullScreenEffect
     \<lparr>element = \<lparr>editingMode = DYNAMIC, height = None, width = None,
                  useContainerWidth = True\<rparr>,
      resizableRef = None, numRows = 20, containerWidth = 640,
      containerHeight = None, isFullScreen = Some False\<rparr>
     \<lparr>size_width = Str ''100%'', size_height = Num 100\<rparr>
   = \<lparr>size_width = Str ''100%'', size_height = Num 100\<rparr>"
  (is "containerWidthEffect ?p ?s = _ \<and> _")
proof -
  have r: "resizableRef ?p = None"
    by simp
  from no_update_without_ref [OF r, of ?s] show ?thesis
    by simp
qed

text \<open>
  C7. The effect of the container width changes the state only when the full container
  width is requested and the current width is the string \<^verbatim>\<open>"100%"\<close>. When it does, it
  writes the new container width and keeps the height. When the current width is a
  number (as after a manual resize) the state stays as it is. The test of line 129
  for a mounted reference is a further condition of the update.
\<close>

theorem containerWidth_rule:
  "(containerWidthEffect p s \<noteq> s \<longrightarrow>
      useContainerWidth (element p) \<and> size_width s = Str ''100%'')
   \<and> (resizableRef p \<noteq> None \<and> useContainerWidth (element p)
        \<and> size_width s = Str ''100%'' \<longrightarrow>
      containerWidthEffect p s
        = \<lparr>size_width = Num (containerWidth p), size_height = size_height s\<rparr>)
   \<and> (containerWidthEffect p s = s
        \<or> containerWidthEffect p s = s\<lparr>size_width := Num (containerWidth p)\<rparr>)
   \<and> size_height (containerWidthEffect p s) = size_height s
   \<and> (size_width s = Num n \<longrightarrow> containerWidthEffect p s = s)"
  by (simp add: containerWidthEffect_def)

text \<open>
  A table that fills its container takes the new container width 640 and keeps its
  height 213; a table resized by hand to the width 500 stays as it is.
\<close>

theorem containerWidth_rule_witness:
  "containerWidthEffect
     \<lparr>element = \<lparr>editingMode = STATIC, height = None, width = None,
                  useContainerWidth = True\<rparr>,
      resizableRef = Some Resizable, numRows = 5, containerWidth = 640,
      containerHeight = None, isFullScreen = None\<rparr>
     \<lparr>size_width = Str ''100%'', size_height = Num 213\<rparr>
   = \<lparr>size_width = Num 640, size_height = Num 213\<rparr>
   \<and> containerWidthEffect
     \<lparr>element = \<lparr>editingMode = STATIC, height = None, width = None,
                  useContainerWidth = True\<rparr>,
      resizableRef = Some Resizable, numRows = 5, containerWidth = 640,
      containerHeight = None, isFullScreen = None\<rparr>
     \<lparr>size_width = Num 500, size_height = Num 300\<rparr>
   = \<lparr>size_width = Num 500, size_height = Num 300\<rparr>"
  (is "containerWidthEffect ?p ?s = _ \<and> containerWidthEffect ?p ?t = _")
proof -
  have fires: "resizableRef ?p \<noteq> None \<and> useContainerWidth (element ?p)
      \<and> size_width ?s = Str ''100%''"
    by simp
  have manual: "size_width ?t = Num 500"
    by simp
  from containerWidth_rule [of ?p ?s] fires
  have a: "containerWidthEffect ?p ?s
      = \<lparr>size_width = Num (containerWidth ?p), size_height = size_height ?s\<rparr>"
    by blast
  from containerWidth_rule [of ?p ?t 500] manual
  have b: "containerWidthEffect ?p ?t = ?t"
    by blast
  from a b show ?thesis
    by simp
qed

text \<open>
  C8. Each effect is idempotent: run a second time with the same properties on the
  state the first run left, it leaves that state. In particular the effect of the row
  count, run twice with the same row count, gives the same height as run once.
\<close>

theorem effects_idempotent:
  "containerWidthEffect p (containerWidthEffect p s) = containerWidthEffect p s
   \<and> numRowsEffect p (numRowsEffect p s) = numRowsEffect p s
   \<and> fullScreenEffect p (fullScreenEffect p s) = fullScreenEffect p s
   \<and> size_height (numRowsEffect p (numRowsEffect p s)) = size_height (numRowsEffect p s)"
  by (simp add: containerWidthEffect_def numRowsEffect_def fullScreenEffect_def Let_def)

text \<open>
  Ten rows and a state of height 999: the effect of the row count, run twice, gives the
  height that it gives run once.
\<close>

theorem effects_idempotent_witness:
  "size_height (numRowsEffect
     \<lparr>element = \<lparr>editingMode = STATIC, height = None, width = None,
                  useContainerWidth = False\<rparr>,
      resizableRef = Some Resizable, numRows = 10, containerWidth = 800,
      containerHeight = None, isFullScreen = None\<rparr>
     (numRowsEffect
       \<lparr>element = \<lparr>editingMode = STATIC, height = None, width = None,
                    useContainerWidth = False\<rparr>,
        resizableRef = Some Resizable, numRows = 10, containerWidth = 800,
        containerHeight = None, isFullScreen = None\<rparr>
       \<lparr>size_width = Str ''100%'', size_height = Num 999\<rparr>))
   = size_height (numRowsEffect
     \<lparr>element = \<lparr>editingMode = STATIC, height = None, width = None,
                  useContainerWidth = False\<rparr>,
      resizableRef = Some Resizable, numRows = 10, containerWidth = 800,
      containerHeight = None, isFullScreen = None\<rparr>
     \<lparr>size_width = Str ''100%'', size_height = Num 999\<rparr>)"
  (is "size_height (numRowsEffect ?p (numRowsEffect ?p ?s)) = _")
  using effects_idempotent [of ?p ?s] by blast


text \<open>
  C4, as the spec states it: when the full-screen flag turns true, the state becomes
  the maximum width (or \<^verbatim>\<open>"100%"\<close>) and the maximum height. The effect tests
  \<^verbatim>\<open>resizableRef.current\<close> first (line 151); with a null reference the state stays.
  A hundred rows, full container width, container 1200 by 600, state 800 by 400: the
  maximum size is 1200 by 600 and the state is still 800 by 400.
\<close>

theorem fullScreen_on_without_ref:
  "fullScreenEffect
     \<lparr>element = \<lparr>editingMode = STATIC, height = None, width = None,
                  useContainerWidth = True\<rparr>,
      resizableRef = None, numRows = 100, containerWidth = 1200,
      containerHeight = Some 600, isFullScreen = Some True\<rparr>
     \<lparr>size_width = Num 800, size_height = Num 400\<rparr>
   = \<lparr>size_width = Num 800, size_height = Num 400\<rparr>
   \<and> maxWidth (useTableSizer
     \<lparr>element = \<lparr>editingMode = STATIC, height = None, width = None,
                  useContainerWidth = True\<rparr>,
      resizableRef = None, numRows = 100, containerWidth = 1200,
      containerHeight = Some 600, isFullScreen = Some True\<rparr>) = 1200
   \<and> maxHeight (useTableSizer
     \<lparr>element = \<lparr>editingMode = STATIC, height = None, width = None,
                  useContainerWidth = True\<rparr>,
      resizableRef = None, numRows = 100, containerWidth = 1200,
      containerHeight = Some 600, isFullScreen = Some True\<rparr>) = 600
   \<and> fullScreenEffect
     \<lparr>element = \<lparr>editingMode = STATIC, height = None, width = None,
                  useContainerWidth = True\<rparr>,
      resizableRef = None, numRows = 100, containerWidth = 1200,
      containerHeight = Some 600, isFullScreen = Some True\<rparr>
     \<lparr>size_width = Num 800, size_height = Num 400\<rparr>
   \<noteq> \<lparr>size_width = Num 1200, size_height = Num 600\<rparr>"
  by (simp add: fullScreenEffect_def useTableSizer_def tableHeights_def tableWidths_def
      automaticMaxHeight_def ROW_HEIGHT_def MIN_TABLE_HEIGHT_def DEFAULT_TABLE_HEIGHT_def
      truthy_def Let_def)

text \<open>
  C4, amended. When the reference is mounted and the full-screen flag is true, the
  effect of the flag sets the state to the maximum height and to the width
  \<^verbatim>\<open>maxWidth\<close> if the full container width is requested or a width above 0 is
  configured, and \<^verbatim>\<open>"100%"\<close> otherwise. Both maxima are those of the current render, so
  the maximum height is at most a supplied container height.
\<close>

theorem fullScreen_on_sets_maximum:
  "resizableRef p \<noteq> None \<Longrightarrow> truthyBool (isFullScreen p) \<Longrightarrow>
   fullScreenEffect p s
     = \<lparr>size_width =
          (if useContainerWidth (element p)
              \<or> (case width (element p) of None \<Rightarrow> False | Some w \<Rightarrow> 0 < w)
           then Num (maxWidth (useTableSizer p)) else Str ''100%''),
        size_height = Num (maxHeight (useTableSizer p))\<rparr>
   \<and> (containerHeight p = Some c \<and> c \<noteq> 0 \<longrightarrow> maxHeight (useTableSizer p) \<le> c)"
  by (auto simp add: fullScreenEffect_def notNullOrUndefined_def Let_def
      maxHeight_le_containerHeight split: option.split)

text \<open>
  Scenario D of the spec, with a hundred rows: full container width, container 1200 by
  600, mounted reference. The state becomes 1200 by 600.
\<close>

theorem fullScreen_on_sets_maximum_witness:
  "fullScreenEffect
     \<lparr>element = \<lparr>editingMode = STATIC, height = None, width = None,
                  useContainerWidth = True\<rparr>,
      resizableRef = Some Resizable, numRows = 100, containerWidth = 1200,
      containerHeight = Some 600, isFullScreen = Some True\<rparr>
     \<lparr>size_width = Num 800, size_height = Num 400\<rparr>
   = \<lparr>size_width = Num 1200, size_height = Num 600\<rparr>"
  (is "fullScreenEffect ?p ?s = _")
proof -
  have r: "resizableRef ?p \<noteq> None" and f: "truthyBool (isFullScreen ?p)"
    by (simp_all add: truthyBool_def)
  have w: "maxWidth (useTableSizer ?p) = 1200"
    by (simp add: useTableSizer_def tableWidths_def Let_def)
  have h: "maxHeight (useTableSizer ?p) = 600"
    by (simp add: useTableSizer_def tableHeights_def automaticMaxHeight_def ROW_HEIGHT_def
        MIN_TABLE_HEIGHT_def DEFAULT_TABLE_HEIGHT_def truthy_def Let_def)
  from fullScreen_on_sets_maximum [OF r f, of ?s] w h show ?thesis
    by simp
qed

text \<open>
  C5, as the spec states it: when the full-screen flag turns false, the state goes back
  to the initial width (or \<^verbatim>\<open>"100%"\<close>) and the initial height. With a null reference
  the state stays. A hundred rows, full container width, container width 800, state
  1200 by 600 from the full screen: the initial size is 800 by 400 and the state is
  still 1200 by 600.
\<close>

theorem fullScreen_off_without_ref:
  "fullScreenEffect
     \<lparr>element = \<lparr>editingMode = STATIC, height = None, width = None,
                  useContainerWidth = True\<rparr>,
      resizableRef = None, numRows = 100, containerWidth = 800,
      containerHeight = None, isFullScreen = Some False\<rparr>
     \<lparr>size_width = Num 1200, size_height = Num 600\<rparr>
   = \<lparr>size_width = Num 1200, size_height = Num 600\<rparr>
   \<and> initialWidth (useTableSizer
     \<lparr>element = \<lparr>editingMode = STATIC, height = None, width = None,
                  useContainerWidth = True\<rparr>,
      resizableRef = None, numRows = 100, containerWidth = 800,
      containerHeight = None, isFullScreen = Some False\<rparr>) = Some 800
   \<and> initialHeight (useTableSizer
     \<lparr>element = \<lparr>editingMode = STATIC, height = None, width = None,
                  useContainerWidth = True\<rparr>,
      resizableRef = None, numRows = 100, containerWidth = 800,
      containerHeight = None, isFullScreen = Some False\<rparr>) = 400
   \<and> fullScreenEffect
     \<lparr>element = \<lparr>editingMode = STATIC, height = None, width = None,
                  useContainerWidth = True\<rparr>,
      resizableRef = None, numRows = 100, containerWidth = 800,
      containerHeight = None, isFullScreen = Some False\<rparr>
     \<lparr>size_width = Num 1200, size_height = Num 600\<rparr>
   \<noteq> \<lparr>size_width = Num 800, size_height = Num 400\<rparr>"
  by (simp add: fullScreenEffect_def useTableSizer_def tableHeights_def tableWidths_def
      automaticMaxHeight_def ROW_HEIGHT_def MIN_TABLE_HEIGHT_def DEFAULT_TABLE_HEIGHT_def
      truthy_def Let_def)

text \<open>
  C5, amended. When the reference is mounted and the full-screen flag is not true, the
  effect of the flag sets the state to the initial height and to the initial width, or
  to \<^verbatim>\<open>"100%"\<close> when the initial width is undefined or 0. That is the initial state of
  the current render, whatever the state was in full screen. With a container width
  other than 0 a defined initial width is never 0, so the width is the initial width
  whenever that is defined.
\<close>

theorem fullScreen_off_restores_initial:
  "resizableRef p \<noteq> None \<Longrightarrow> \<not> truthyBool (isFullScreen p) \<Longrightarrow>
   fullScreenEffect p s
     = \<lparr>size_width =
          (case initialWidth (useTableSizer p) of
             None \<Rightarrow> Str ''100%''
           | Some w \<Rightarrow> if w = 0 then Str ''100%'' else Num w),
        size_height = Num (initialHeight (useTableSizer p))\<rparr>
   \<and> fullScreenEffect p s = initialResizableSize p
   \<and> (containerWidth p \<noteq> 0 \<longrightarrow>
        size_width (fullScreenEffect p s)
          = (case initialWidth (useTableSizer p) of
               None \<Rightarrow> Str ''100%'' | Some w \<Rightarrow> Num w))"
  by (auto simp add: fullScreenEffect_def initialResizableSize_def orFullWidth_def
      useTableSizer_def tableWidths_def MIN_TABLE_WIDTH_def MIN_COLUMN_WIDTH_def Let_def
      split: option.split)

text \<open>
  Scenario E of the spec: back from the full screen of scenario D (state 1200 by 600)
  into a container of width 800, the state is the initial 800 by 400 again.
\<close>

theorem fullScreen_off_restores_initial_witness:
  "fullScreenEffect
     \<lparr>element = \<lparr>editingMode = STATIC, height = None, width = None,
                  useContainerWidth = True\<rparr>,
      resizableRef = Some Resizable, numRows = 100, containerWidth = 800,
      containerHeight = None, isFullScreen = Some False\<rparr>
     \<lparr>size_width = Num 1200, size_height = Num 600\<rparr>
   = \<lparr>size_width = Num 800, size_height = Num 400\<rparr>"
  (is "fullScreenEffect ?p ?s = _")
proof -
  have r: "resizableRef ?p \<noteq> None" and f: "\<not> truthyBool (isFullScreen ?p)"
    by (simp_all add: truthyBool_def)
  have w: "initialWidth (useTableSizer ?p) = Some 800"
    by (simp add: useTableSizer_def tableWidths_def Let_def)
  have h: "initialHeight (useTableSizer ?p) = 400"
    by (simp add: useTableSizer_def tableHeights_def automaticMaxHeight_def ROW_HEIGHT_def
        MIN_TABLE_HEIGHT_def DEFAULT_TABLE_HEIGHT_def truthy_def Let_def)
  from fullScreen_off_restores_initial [OF r f, of ?s] w h show ?thesis
    by simp
qed

end
